theory Spec2Isabelle
  imports Complex_Main
begin

section \<open>JavaScript values used by TapEventPlugin.js\<close>

text \<open>
  The module keeps its gesture state in module-level variables that hold either
  \<open>null\<close> or a number, and reads numeric fields of host objects by name.  A
  field that is absent reads as \<open>undefined\<close>; arithmetic on \<open>undefined\<close> gives
  \<open>NaN\<close>.  Numbers are idealised as reals: rounding of doubles and the
  infinities are not modelled, \<open>NaN\<close> is.
\<close>

datatype jsval = Null | Undefined | NaN | Num real

text \<open>ToNumber: \<open>null\<close> is 0, \<open>undefined\<close> is NaN (here \<open>None\<close>).\<close>

fun toNumber :: "jsval \<Rightarrow> real option" where
  "toNumber Null = Some 0"
| "toNumber Undefined = None"
| "toNumber NaN = None"
| "toNumber (Num r) = Some r"

text \<open>ToBoolean, as used by \<open>&&\<close> and \<open>if\<close>: \<open>null\<close>, \<open>undefined\<close>, \<open>NaN\<close> and 0 are falsy.\<close>

fun truthy :: "jsval \<Rightarrow> bool" where
  "truthy (Num r) = (r \<noteq> 0)"
| "truthy _ = False"

definition js_sub :: "jsval \<Rightarrow> jsval \<Rightarrow> jsval" where
  "js_sub a b = (case (toNumber a, toNumber b) of
                   (Some p, Some q) \<Rightarrow> Num (p - q)
                 | _ \<Rightarrow> NaN)"

definition js_add :: "jsval \<Rightarrow> jsval \<Rightarrow> jsval" where
  "js_add a b = (case (toNumber a, toNumber b) of
                   (Some p, Some q) \<Rightarrow> Num (p + q)
                 | _ \<Rightarrow> NaN)"

text \<open>Relational operators: any comparison with NaN is false.\<close>

definition js_lt :: "jsval \<Rightarrow> jsval \<Rightarrow> bool" where
  "js_lt a b = (case (toNumber a, toNumber b) of
                  (Some p, Some q) \<Rightarrow> p < q
                | _ \<Rightarrow> False)"

definition js_ge :: "jsval \<Rightarrow> jsval \<Rightarrow> bool" where
  "js_ge a b = (case (toNumber a, toNumber b) of
                  (Some p, Some q) \<Rightarrow> p \<ge> q
                | _ \<Rightarrow> False)"

text \<open>\<open>Math.pow(v, 2)\<close> and \<open>Math.pow(v, 0.5)\<close>, the two uses in \<open>getDistance\<close>.\<close>

definition Math_pow_2 :: "jsval \<Rightarrow> jsval" where
  "Math_pow_2 v = (case toNumber v of Some p \<Rightarrow> Num (p ^ 2) | None \<Rightarrow> NaN)"

definition Math_pow_half :: "jsval \<Rightarrow> jsval" where
  "Math_pow_half v = (case toNumber v of
                        Some p \<Rightarrow> (if p < 0 then NaN else Num (sqrt p))
                      | None \<Rightarrow> NaN)"

text \<open>An object with numeric fields; \<open>obj[k]\<close> is \<open>undefined\<close> when \<open>k\<close> is absent.\<close>

type_synonym jsobj = "string \<rightharpoonup> real"

definition js_get :: "jsobj \<Rightarrow> string \<Rightarrow> jsval" where
  "js_get obj k = (case obj k of None \<Rightarrow> Undefined | Some r \<Rightarrow> Num r)"

definition js_in :: "string \<Rightarrow> jsobj \<Rightarrow> bool" where
  "js_in k obj = (obj k \<noteq> None)"


section \<open>Host objects\<close>

text \<open>
  A native browser event: its \<open>timeStamp\<close> (every DOM event has one, a number), its own
  numeric fields (\<open>pageX\<close>, \<open>clientX\<close>, ...), which may be absent, and its active
  touch points.
\<close>

record nativeEvent =
  timeStamp :: real
  props :: jsobj
  touches :: "jsobj list"

text \<open>
  The collaborators the module requires but does not define:
  \<open>EventPluginUtils.isStartish\<close>, \<open>EventPluginUtils.isEndish\<close>,
  \<open>TouchEventUtils.extractSingleTouch\<close> (a touch object, or nothing) and the
  \<open>ViewportMetrics\<close> object.  They are parameters of the model.
\<close>

record host =
  isStartish :: "string \<Rightarrow> bool"
  isEndish :: "string \<Rightarrow> bool"
  extractSingleTouch :: "nativeEvent \<Rightarrow> jsobj option"
  ViewportMetrics :: jsobj

text \<open>\<open>EventPluginUtils.useTouchEvents\<close> and \<open>'ontouchstart' in window\<close>, read once at load time.\<close>

record config =
  useTouchEvents :: bool
  ontouchstart_in_window :: bool


section \<open>Constants and module state (lines 41--60)\<close>

definition tapMoveThreshold :: real where
  "tapMoveThreshold = 10"

definition ignoreMouseThreshold :: real where
  "ignoreMouseThreshold = 350"

definition tapTimeThreshold :: real where
  "tapTimeThreshold = 2000"

record coords =
  coord_x :: jsval
  coord_y :: jsval

record clock =
  time_start :: real
  time_end :: real

record state =
  startCoords :: coords
  lastStartTouchEvent :: "real option"
  lastEndTouchEvent :: "real option"
  Time :: clock

text \<open>The values the module-level variables are initialised with.\<close>

definition initialState :: state where
  "initialState =
     \<lparr> startCoords = \<lparr> coord_x = Null, coord_y = Null \<rparr>,
       lastStartTouchEvent = None,
       lastEndTouchEvent = None,
       Time = \<lparr> time_start = 0, time_end = 0 \<rparr> \<rparr>"

record axis =
  page :: string
  client :: string
  envScroll :: string

definition Axis_x :: axis where
  "Axis_x = \<lparr> page = ''pageX'', client = ''clientX'', envScroll = ''currentPageScrollLeft'' \<rparr>"

definition Axis_y :: axis where
  "Axis_y = \<lparr> page = ''pageY'', client = ''clientY'', envScroll = ''currentPageScrollTop'' \<rparr>"


section \<open>Coordinate and timing extraction (lines 62--95)\<close>

definition getAxisCoordOfEvent :: "host \<Rightarrow> axis \<Rightarrow> nativeEvent \<Rightarrow> jsval" where
  "getAxisCoordOfEvent h ax ne =
     (case extractSingleTouch h ne of
        Some singleTouch \<Rightarrow> js_get singleTouch (page ax)
      | None \<Rightarrow>
          (if js_in (page ax) (props ne)
           then js_get (props ne) (page ax)
           else js_add (js_get (props ne) (client ax))
                       (js_get (ViewportMetrics h) (envScroll ax))))"

definition getDistance :: "host \<Rightarrow> coords \<Rightarrow> nativeEvent \<Rightarrow> jsval" where
  "getDistance h cs ne =
     (let pageX = getAxisCoordOfEvent h Axis_x ne;
          pageY = getAxisCoordOfEvent h Axis_y ne
      in Math_pow_half
           (js_add (Math_pow_2 (js_sub pageX (coord_x cs)))
                   (Math_pow_2 (js_sub pageY (coord_y cs)))))"

definition getTime :: "nativeEvent \<Rightarrow> real" where
  "getTime ne = timeStamp ne"

definition getDuration :: "state \<Rightarrow> real" where
  "getDuration s = time_end (Time s) - time_start (Time s)"

definition isTouchDevice :: "config \<Rightarrow> bool" where
  "isTouchDevice c = ontouchstart_in_window c"


section \<open>Dependencies and event types (lines 97--141)\<close>

definition mouseDependencies :: "string list" where
  "mouseDependencies = [''topMouseDown'', ''topMouseMove'', ''topMouseUp'']"

definition touchDependencies :: "string list" where
  "touchDependencies = [''topTouchCancel'', ''topTouchEnd'', ''topTouchStart'', ''topTouchMove'']"

text \<open>\<open>var dependencies;\<close> stays \<open>undefined\<close> (here \<open>None\<close>) unless the outer \<open>if\<close> assigns it.\<close>

definition dependencies :: "config \<Rightarrow> string list option" where
  "dependencies c =
     (if useTouchEvents c
      then (if isTouchDevice c then Some touchDependencies else Some mouseDependencies)
      else None)"

text \<open>
  The three entries of \<open>eventTypes\<close> are named by \<open>eventTypeName\<close>; an entry holds the
  two \<open>phasedRegistrationNames\<close> and the shared \<open>dependencies\<close> (field \<open>deps\<close>).
\<close>

datatype eventTypeName = touchTap | touchTapStart | touchTapEnd

record dispatchConfig =
  bubbled :: string
  captured :: string
  deps :: "string list option"

fun eventTypes :: "config \<Rightarrow> eventTypeName \<Rightarrow> dispatchConfig" where
  "eventTypes c touchTap =
     \<lparr> bubbled = ''onTap'', captured = ''onTapCapture'', deps = dependencies c \<rparr>"
| "eventTypes c touchTapStart =
     \<lparr> bubbled = ''onTapStart'', captured = ''onTapStartCapture'', deps = dependencies c \<rparr>"
| "eventTypes c touchTapEnd =
     \<lparr> bubbled = ''onTapEnd'', captured = ''onTapEndCapture'', deps = dependencies c \<rparr>"


section \<open>extractEvents (lines 159--257)\<close>

text \<open>
  Modelled from the spec: \<open>SyntheticUIEvent.getPooled\<close> is not part of the module; the
  semantic-event factory yields an object carrying the event descriptor, the target
  identity and the originating raw event.  \<open>EventPropagators.accumulateTwoPhaseDispatches\<close>
  only attaches listeners to that object and is left out.
\<close>

record syntheticEvent =
  dispatchConfig :: eventTypeName
  dispatchMarker :: string
  nativeEvent :: nativeEvent

definition getPooled :: "eventTypeName \<Rightarrow> string \<Rightarrow> nativeEvent \<Rightarrow> syntheticEvent" where
  "getPooled dc marker ne = \<lparr> dispatchConfig = dc, dispatchMarker = marker, nativeEvent = ne \<rparr>"

text \<open>The function returns \<open>null\<close>, one event object, or an array of event objects.\<close>

datatype result = RNull | REvent syntheticEvent | RArray "syntheticEvent list"

text \<open>
  Lines 170 and 175: \<open>last && (nativeEvent.timeStamp - last) < ignoreMouseThreshold\<close>.
  The left operand is tested for truthiness, so both \<open>null\<close> and 0 fail it.
\<close>

definition ignoredByThreshold :: "real option \<Rightarrow> nativeEvent \<Rightarrow> bool" where
  "ignoredByThreshold prev ne =
     (case prev of
        None \<Rightarrow> False
      | Some l \<Rightarrow> l \<noteq> 0 \<and> timeStamp ne - l < ignoreMouseThreshold)"

definition extractEvents ::
  "host \<Rightarrow> string \<Rightarrow> 'n \<Rightarrow> string \<Rightarrow> nativeEvent \<Rightarrow> state \<Rightarrow> result \<times> state" where
  "extractEvents h topLevelType topLevelTarget topLevelTargetID ne s =
     (if isStartish h topLevelType \<and> ignoredByThreshold (lastStartTouchEvent s) ne
        then (RNull, s)
      else if \<not> isStartish h topLevelType \<and> isEndish h topLevelType
              \<and> ignoredByThreshold (lastEndTouchEvent s) ne
        then (RNull, s)
      else
        let s1 = (if isStartish h topLevelType
                    then s\<lparr> lastStartTouchEvent := Some (timeStamp ne) \<rparr>
                  else if isEndish h topLevelType
                    then s\<lparr> lastEndTouchEvent := Some (timeStamp ne) \<rparr>
                  else s)
        in
          if \<not> isStartish h topLevelType \<and> \<not> isEndish h topLevelType then
            (if truthy (coord_x (startCoords s1)) \<and> truthy (coord_y (startCoords s1))
                \<and> js_ge (getDistance h (startCoords s1) ne) (Num tapMoveThreshold)
             then (REvent (getPooled touchTapEnd topLevelTargetID ne),
                   s1\<lparr> startCoords := \<lparr> coord_x = Num 0, coord_y = Num 0 \<rparr> \<rparr>)
             else (RNull, s1))
          else if isStartish h topLevelType then
            (REvent (getPooled touchTapStart topLevelTargetID ne),
             s1\<lparr> Time := (Time s1)\<lparr> time_start := getTime ne \<rparr>,
                 startCoords := \<lparr> coord_x = getAxisCoordOfEvent h Axis_x ne,
                                  coord_y = getAxisCoordOfEvent h Axis_y ne \<rparr> \<rparr>)
          else
            let s2 = s1\<lparr> Time := (Time s1)\<lparr> time_end := getTime ne \<rparr> \<rparr>;
                event =
                  (if isEndish h topLevelType then
                     (if getDuration s2 > tapTimeThreshold
                      then RArray [getPooled touchTapEnd topLevelTargetID ne]
                      else RArray ([getPooled touchTapEnd topLevelTargetID ne]
                             @ (if js_lt (getDistance h (startCoords s2) ne) (Num tapMoveThreshold)
                                then [getPooled touchTap topLevelTargetID ne]
                                else [])))
                   else RNull)
            in (event,
                s2\<lparr> startCoords := \<lparr> coord_x = Num 0, coord_y = Num 0 \<rparr>,
                    Time := \<lparr> time_start = 0, time_end = 0 \<rparr> \<rparr>))"

text \<open>
  The host delivers raw events one at a time, each processed to completion; \<open>feed\<close>
  runs a list of \<open>(topLevelType, topLevelTargetID, nativeEvent)\<close> deliveries and
  collects what each call returned.
\<close>

fun feed :: "host \<Rightarrow> (string \<times> string \<times> nativeEvent) list \<Rightarrow> state \<Rightarrow> result list \<times> state" where
  "feed h [] s = ([], s)"
| "feed h ((ty, tid, ne) # rest) s =
     (let (r, s') = extractEvents h ty () tid ne s;
          (rs, s'') = feed h rest s'
      in (r # rs, s''))"


section \<open>A concrete host for running scenarios\<close>

text \<open>
  Modelled from the spec: \<open>TouchEventUtils.extractSingleTouch\<close> is not part of the module;
  the touch-extraction capability returns the single active touch point of a raw event, if
  there is exactly one.
\<close>

definition singleActiveTouch :: "nativeEvent \<Rightarrow> jsobj option" where
  "singleActiveTouch ne = (case touches ne of [t] \<Rightarrow> Some t | _ \<Rightarrow> None)"

text \<open>
  Modelled from the spec: \<open>EventPluginUtils.isStartish\<close> and \<open>isEndish\<close> are not part of
  the module; the host classifies down/start kinds as start-class and up/end/cancel kinds as
  end-class, mutually exclusively.  The viewport is scrolled by (7, 11).
\<close>

definition demoHost :: host where
  "demoHost =
     \<lparr> isStartish = (\<lambda>ty. ty = ''topMouseDown'' \<or> ty = ''topTouchStart''),
       isEndish = (\<lambda>ty. ty = ''topMouseUp'' \<or> ty = ''topTouchEnd'' \<or> ty = ''topTouchCancel''),
       extractSingleTouch = singleActiveTouch,
       ViewportMetrics = [''currentPageScrollLeft'' \<mapsto> 7, ''currentPageScrollTop'' \<mapsto> 11] \<rparr>"

text \<open>A mouse event at time \<open>t\<close> with page coordinates \<open>(px, py)\<close>.\<close>

definition mouseEvent :: "real \<Rightarrow> real \<Rightarrow> real \<Rightarrow> nativeEvent" where
  "mouseEvent t px py =
     \<lparr> timeStamp = t, props = [''pageX'' \<mapsto> px, ''pageY'' \<mapsto> py], touches = [] \<rparr>"

text \<open>The state right after an accepted start-class event at time \<open>t\<close> and position \<open>(a, b)\<close>.\<close>

definition armedState :: "real \<Rightarrow> real \<Rightarrow> real \<Rightarrow> state" where
  "armedState t a b =
     \<lparr> startCoords = \<lparr> coord_x = Num a, coord_y = Num b \<rparr>,
       lastStartTouchEvent = Some t,
       lastEndTouchEvent = None,
       Time = \<lparr> time_start = t, time_end = 0 \<rparr> \<rparr>"


text \<open>A touch object at page position \<open>(px, py)\<close>, and a touch event carrying the given touches.\<close>

definition touchPoint :: "real \<Rightarrow> real \<Rightarrow> jsobj" where
  "touchPoint px py = [''pageX'' \<mapsto> px, ''pageY'' \<mapsto> py]"

definition touchEvent :: "real \<Rightarrow> jsobj list \<Rightarrow> nativeEvent" where
  "touchEvent t ts = \<lparr> timeStamp = t, props = Map.empty, touches = ts \<rparr>"

text \<open>An event that reports only viewport-relative coordinates.\<close>

definition clientOnlyEvent :: "real \<Rightarrow> real \<Rightarrow> real \<Rightarrow> nativeEvent" where
  "clientOnlyEvent t cx cy =
     \<lparr> timeStamp = t, props = [''clientX'' \<mapsto> cx, ''clientY'' \<mapsto> cy], touches = [] \<rparr>"


section \<open>Auxiliary facts\<close>

lemma sqrt_less_ten: "sqrt v < 10 \<longleftrightarrow> v < 100"
  using real_sqrt_less_iff [of v 100] by simp

lemma ten_le_sqrt: "10 \<le> sqrt v \<longleftrightarrow> 100 \<le> v"
  using real_sqrt_le_iff [of 100 v] by simp

lemma sqrt_hundred: "sqrt 100 = 10"
  using real_sqrt_abs [of 10] by simp

lemma demoHost_classes [simp]:
  "isStartish demoHost ty \<longleftrightarrow> ty = ''topMouseDown'' \<or> ty = ''topTouchStart''"
  "isEndish demoHost ty \<longleftrightarrow> ty = ''topMouseUp'' \<or> ty = ''topTouchEnd'' \<or> ty = ''topTouchCancel''"
  by (simp_all add: demoHost_def)

lemma mouseEvent_timeStamp [simp]: "timeStamp (mouseEvent t px py) = t"
  by (simp add: mouseEvent_def)

lemma mouseEvent_coord_x [simp]:
  "getAxisCoordOfEvent demoHost Axis_x (mouseEvent t px py) = Num px"
  by (simp add: getAxisCoordOfEvent_def demoHost_def singleActiveTouch_def mouseEvent_def
      Axis_x_def js_in_def js_get_def)

lemma mouseEvent_coord_y [simp]:
  "getAxisCoordOfEvent demoHost Axis_y (mouseEvent t px py) = Num py"
  by (simp add: getAxisCoordOfEvent_def demoHost_def singleActiveTouch_def mouseEvent_def
      Axis_y_def js_in_def js_get_def)

lemma getDistance_numeric:
  assumes "getAxisCoordOfEvent h Axis_x ne = Num px"
    and "getAxisCoordOfEvent h Axis_y ne = Num py"
    and "toNumber (coord_x cs) = Some a"
    and "toNumber (coord_y cs) = Some b"
  shows "getDistance h cs ne = Num (sqrt ((px - a)\<^sup>2 + (py - b)\<^sup>2))"
  using assms
  by (simp add: getDistance_def js_sub_def js_add_def Math_pow_2_def Math_pow_half_def not_less)

lemma mouseEvent_distance:
  "getDistance demoHost \<lparr> coord_x = Num a, coord_y = Num b \<rparr> (mouseEvent t px py)
     = Num (sqrt ((px - a)\<^sup>2 + (py - b)\<^sup>2))"
  by (rule getDistance_numeric) simp_all

lemma js_lt_Num [simp]: "js_lt (Num p) (Num q) \<longleftrightarrow> p < q"
  by (simp add: js_lt_def)

lemma js_ge_Num [simp]: "js_ge (Num p) (Num q) \<longleftrightarrow> q \<le> p"
  by (simp add: js_ge_def)

text \<open>What \<open>extractEvents\<close> does on each of its paths.\<close>

lemma extractEvents_move:
  assumes "\<not> isStartish h ty" and "\<not> isEndish h ty"
  shows "extractEvents h ty tgt tid ne s =
           (if truthy (coord_x (startCoords s)) \<and> truthy (coord_y (startCoords s))
               \<and> js_ge (getDistance h (startCoords s) ne) (Num tapMoveThreshold)
            then (REvent (getPooled touchTapEnd tid ne),
                  s\<lparr> startCoords := \<lparr> coord_x = Num 0, coord_y = Num 0 \<rparr> \<rparr>)
            else (RNull, s))"
  using assms by (simp add: extractEvents_def)

lemma extractEvents_start_ignored:
  assumes "isStartish h ty" and "ignoredByThreshold (lastStartTouchEvent s) ne"
  shows "extractEvents h ty tgt tid ne s = (RNull, s)"
  using assms by (simp add: extractEvents_def)

lemma extractEvents_start_accepted:
  assumes "isStartish h ty" and "\<not> ignoredByThreshold (lastStartTouchEvent s) ne"
  shows "extractEvents h ty tgt tid ne s =
           (REvent (getPooled touchTapStart tid ne),
            s\<lparr> lastStartTouchEvent := Some (timeStamp ne),
                Time := (Time s)\<lparr> time_start := timeStamp ne \<rparr>,
                startCoords := \<lparr> coord_x = getAxisCoordOfEvent h Axis_x ne,
                                 coord_y = getAxisCoordOfEvent h Axis_y ne \<rparr> \<rparr>)"
  using assms by (simp add: extractEvents_def getTime_def)

lemma extractEvents_end_ignored:
  assumes "\<not> isStartish h ty" and "isEndish h ty"
    and "ignoredByThreshold (lastEndTouchEvent s) ne"
  shows "extractEvents h ty tgt tid ne s = (RNull, s)"
  using assms by (simp add: extractEvents_def)

lemma extractEvents_end_accepted:
  assumes "\<not> isStartish h ty" and "isEndish h ty"
    and "\<not> ignoredByThreshold (lastEndTouchEvent s) ne"
  shows "extractEvents h ty tgt tid ne s =
           ((if timeStamp ne - time_start (Time s) > tapTimeThreshold
             then RArray [getPooled touchTapEnd tid ne]
             else if js_lt (getDistance h (startCoords s) ne) (Num tapMoveThreshold)
               then RArray [getPooled touchTapEnd tid ne, getPooled touchTap tid ne]
               else RArray [getPooled touchTapEnd tid ne]),
            s\<lparr> lastEndTouchEvent := Some (timeStamp ne),
                startCoords := \<lparr> coord_x = Num 0, coord_y = Num 0 \<rparr>,
                Time := \<lparr> time_start = 0, time_end = 0 \<rparr> \<rparr>)"
  using assms by (simp add: extractEvents_def getTime_def getDuration_def Let_def)

lemma initialState_fields [simp]:
  "startCoords initialState = \<lparr> coord_x = Null, coord_y = Null \<rparr>"
  "lastStartTouchEvent initialState = None"
  "lastEndTouchEvent initialState = None"
  "Time initialState = \<lparr> time_start = 0, time_end = 0 \<rparr>"
  by (simp_all add: initialState_def)

lemma armedState_fields [simp]:
  "startCoords (armedState t a b) = \<lparr> coord_x = Num a, coord_y = Num b \<rparr>"
  "lastStartTouchEvent (armedState t a b) = Some t"
  "lastEndTouchEvent (armedState t a b) = None"
  "Time (armedState t a b) = \<lparr> time_start = t, time_end = 0 \<rparr>"
  by (simp_all add: armedState_def)

lemma not_ignored_None [simp]: "\<not> ignoredByThreshold None ne"
  by (simp add: ignoredByThreshold_def)

lemma start_from_initialState:
  "extractEvents demoHost ''topMouseDown'' tgt tid (mouseEvent t a b) initialState
     = (REvent (getPooled touchTapStart tid (mouseEvent t a b)), armedState t a b)"
  by (simp add: extractEvents_start_accepted initialState_def armedState_def)


section \<open>End-class events\<close>

text \<open>
  C1.  For every end-class raw event that passes the dedup filter: if the duration (the event's
  timestamp, recorded as the end time, minus the recorded start time) is strictly greater than
  2000 ms the result is exactly [tap-end]; otherwise the result contains a tap-end, and a tap
  after it if and only if the distance from the recorded origin to the event's page coordinates
  is strictly less than the move threshold.  With numeric coordinates that distance is the
  Euclidean one.  In particular a start at (0,0), t=0, followed by an end at (3,4), t=100,
  yields [tap-end, tap].
\<close>

theorem C1_end_event_outcome:
  "(\<forall>h ty (tgt::'n) tid ne s.
      isEndish h ty \<and> \<not> isStartish h ty \<and> \<not> ignoredByThreshold (lastEndTouchEvent s) ne \<longrightarrow>
        fst (extractEvents h ty tgt tid ne s) =
          (if timeStamp ne - time_start (Time s) > 2000
           then RArray [getPooled touchTapEnd tid ne]
           else if js_lt (getDistance h (startCoords s) ne) (Num tapMoveThreshold)
             then RArray [getPooled touchTapEnd tid ne, getPooled touchTap tid ne]
             else RArray [getPooled touchTapEnd tid ne]))
   \<and> (\<forall>h ne cs px py a b.
        getAxisCoordOfEvent h Axis_x ne = Num px \<and> getAxisCoordOfEvent h Axis_y ne = Num py
        \<and> toNumber (coord_x cs) = Some a \<and> toNumber (coord_y cs) = Some b \<longrightarrow>
          (js_lt (getDistance h cs ne) (Num tapMoveThreshold)
             \<longleftrightarrow> sqrt ((px - a)\<^sup>2 + (py - b)\<^sup>2) < 10))
   \<and> (\<forall>h k1 k2 tid e1 e2.
        isStartish h k1 \<and> isEndish h k2 \<and> \<not> isStartish h k2
        \<and> timeStamp e1 = 0
        \<and> getAxisCoordOfEvent h Axis_x e1 = Num 0 \<and> getAxisCoordOfEvent h Axis_y e1 = Num 0
        \<and> timeStamp e2 = 100
        \<and> getAxisCoordOfEvent h Axis_x e2 = Num 3 \<and> getAxisCoordOfEvent h Axis_y e2 = Num 4 \<longrightarrow>
          fst (feed h [(k1, tid, e1), (k2, tid, e2)] initialState) =
            [REvent (getPooled touchTapStart tid e1),
             RArray [getPooled touchTapEnd tid e2, getPooled touchTap tid e2]])"
proof (intro conjI allI impI)
  fix h :: host and ty and tgt :: 'n and tid and ne :: nativeEvent and s :: state
  assume "isEndish h ty \<and> \<not> isStartish h ty \<and> \<not> ignoredByThreshold (lastEndTouchEvent s) ne"
  then show "fst (extractEvents h ty tgt tid ne s) =
          (if timeStamp ne - time_start (Time s) > 2000
           then RArray [getPooled touchTapEnd tid ne]
           else if js_lt (getDistance h (startCoords s) ne) (Num tapMoveThreshold)
             then RArray [getPooled touchTapEnd tid ne, getPooled touchTap tid ne]
             else RArray [getPooled touchTapEnd tid ne])"
    by (simp add: extractEvents_end_accepted tapTimeThreshold_def)
next
  fix h :: host and ne :: nativeEvent and cs :: coords and px py a b
  assume "getAxisCoordOfEvent h Axis_x ne = Num px \<and> getAxisCoordOfEvent h Axis_y ne = Num py
        \<and> toNumber (coord_x cs) = Some a \<and> toNumber (coord_y cs) = Some b"
  then have "getDistance h cs ne = Num (sqrt ((px - a)\<^sup>2 + (py - b)\<^sup>2))"
    by (simp add: getDistance_numeric)
  then show "js_lt (getDistance h cs ne) (Num tapMoveThreshold)
             \<longleftrightarrow> sqrt ((px - a)\<^sup>2 + (py - b)\<^sup>2) < 10"
    by (simp add: tapMoveThreshold_def)
next
  fix h :: host and k1 k2 tid and e1 e2 :: nativeEvent
  assume a: "isStartish h k1 \<and> isEndish h k2 \<and> \<not> isStartish h k2
        \<and> timeStamp e1 = 0
        \<and> getAxisCoordOfEvent h Axis_x e1 = Num 0 \<and> getAxisCoordOfEvent h Axis_y e1 = Num 0
        \<and> timeStamp e2 = 100
        \<and> getAxisCoordOfEvent h Axis_x e2 = Num 3 \<and> getAxisCoordOfEvent h Axis_y e2 = Num 4"
  let ?s1 = "initialState\<lparr> lastStartTouchEvent := Some 0,
                Time := (Time initialState)\<lparr> time_start := 0 \<rparr>,
                startCoords := \<lparr> coord_x = Num 0, coord_y = Num 0 \<rparr> \<rparr>"
  have first: "extractEvents h k1 () tid e1 initialState
                 = (REvent (getPooled touchTapStart tid e1), ?s1)"
    using a by (simp add: extractEvents_start_accepted)
  have dist: "getDistance h (startCoords ?s1) e2 = Num (sqrt ((3 - 0)\<^sup>2 + (4 - 0)\<^sup>2))"
    using a by (intro getDistance_numeric) simp_all
  have "sqrt ((3 - 0)\<^sup>2 + (4 - 0)\<^sup>2) < (10::real)"
    by (simp add: sqrt_less_ten)
  with dist have near: "js_lt (getDistance h (startCoords ?s1) e2) (Num tapMoveThreshold)"
    by (simp add: tapMoveThreshold_def)
  have second: "fst (extractEvents h k2 () tid e2 ?s1)
                  = RArray [getPooled touchTapEnd tid e2, getPooled touchTap tid e2]"
    using a near by (simp add: extractEvents_end_accepted tapTimeThreshold_def)
  show "fst (feed h [(k1, tid, e1), (k2, tid, e2)] initialState) =
            [REvent (getPooled touchTapStart tid e1),
             RArray [getPooled touchTapEnd tid e2, getPooled touchTap tid e2]]"
    using first second by (simp add: split_beta)
qed

theorem C1_end_event_outcome_witness:
  "isEndish demoHost ''topMouseUp'' \<and> \<not> isStartish demoHost ''topMouseUp''
   \<and> \<not> ignoredByThreshold (lastEndTouchEvent (armedState 0 0 0)) (mouseEvent 100 3 4)
   \<and> fst (extractEvents demoHost ''topMouseUp'' () ''root'' (mouseEvent 100 3 4) (armedState 0 0 0))
       = RArray [getPooled touchTapEnd ''root'' (mouseEvent 100 3 4),
                 getPooled touchTap ''root'' (mouseEvent 100 3 4)]
   \<and> fst (extractEvents demoHost ''topMouseUp'' () ''root'' (mouseEvent 2500 0 0) (armedState 0 0 0))
       = RArray [getPooled touchTapEnd ''root'' (mouseEvent 2500 0 0)]"
  using C1_end_event_outcome [THEN conjunct1, rule_format,
          of demoHost "''topMouseUp''" "armedState 0 0 0" "mouseEvent 100 3 4" "()" "''root''"]
        C1_end_event_outcome [THEN conjunct1, rule_format,
          of demoHost "''topMouseUp''" "armedState 0 0 0" "mouseEvent 2500 0 0" "()" "''root''"]
  by (simp add: mouseEvent_distance tapMoveThreshold_def sqrt_less_ten)


section \<open>Start-class events\<close>

text \<open>
  C5.  For every start-class raw event that passes the dedup filter, the recognizer records the
  event's timestamp as the gesture start time, captures the event's page-space (x, y) as the
  gesture origin, whatever state an earlier unresolved gesture left behind, and returns exactly
  one tap-start semantic event.
\<close>

theorem C5_start_event_arms:
  assumes "isStartish h ty"
    and "\<not> ignoredByThreshold (lastStartTouchEvent s) ne"
  shows "fst (extractEvents h ty tgt tid ne s) = REvent (getPooled touchTapStart tid ne)
       \<and> time_start (Time (snd (extractEvents h ty tgt tid ne s))) = timeStamp ne
       \<and> startCoords (snd (extractEvents h ty tgt tid ne s))
           = \<lparr> coord_x = getAxisCoordOfEvent h Axis_x ne,
               coord_y = getAxisCoordOfEvent h Axis_y ne \<rparr>
       \<and> lastStartTouchEvent (snd (extractEvents h ty tgt tid ne s)) = Some (timeStamp ne)
       \<and> lastEndTouchEvent (snd (extractEvents h ty tgt tid ne s)) = lastEndTouchEvent s
       \<and> time_end (Time (snd (extractEvents h ty tgt tid ne s))) = time_end (Time s)"
  using assms by (simp add: extractEvents_start_accepted)

theorem C5_start_event_arms_witness:
  "isStartish demoHost ''topMouseDown''
   \<and> \<not> ignoredByThreshold (lastStartTouchEvent (armedState 1000 1 1)) (mouseEvent 1400 30 40)
   \<and> extractEvents demoHost ''topMouseDown'' () ''root'' (mouseEvent 1400 30 40) (armedState 1000 1 1)
       = (REvent (getPooled touchTapStart ''root'' (mouseEvent 1400 30 40)), armedState 1400 30 40)"
proof -
  have a: "isStartish demoHost ''topMouseDown''"
    by simp
  have b: "\<not> ignoredByThreshold (lastStartTouchEvent (armedState 1000 1 1)) (mouseEvent 1400 30 40)"
    by (simp add: ignoredByThreshold_def ignoreMouseThreshold_def)
  from C5_start_event_arms [OF a b, of "()" "''root''"]
  have "extractEvents demoHost ''topMouseDown'' () ''root'' (mouseEvent 1400 30 40) (armedState 1000 1 1)
       = (REvent (getPooled touchTapStart ''root'' (mouseEvent 1400 30 40)), armedState 1400 30 40)"
    by (simp add: prod_eq_iff armedState_def)
  with a b show ?thesis
    by simp
qed


section \<open>Move-class events\<close>

text \<open>
  C2.  The claim asks that a move at distance at least the threshold from the origin of a
  started, unresolved gesture aborts it.  Line 183 tests the origin coordinates for
  truthiness, so a gesture started on the line x = 0 or y = 0 is not seen as armed: after a
  start at (0,0), t=0, a move to (20,0), t=50 (distance 20) returns nothing and leaves the
  state as the start left it.
\<close>

theorem C2_zero_origin_move_not_aborted:
  "feed demoHost [(''topMouseDown'', ''root'', mouseEvent 0 0 0),
                  (''topMouseMove'', ''root'', mouseEvent 50 20 0)] initialState
     = ([REvent (getPooled touchTapStart ''root'' (mouseEvent 0 0 0)), RNull], armedState 0 0 0)
   \<and> getDistance demoHost (startCoords (armedState 0 0 0)) (mouseEvent 50 20 0) = Num 20
   \<and> js_ge (Num 20) (Num tapMoveThreshold)"
proof -
  have "sqrt ((20 - 0)\<^sup>2 + (0 - 0)\<^sup>2) = (20::real)"
    by simp
  then have d: "getDistance demoHost (startCoords (armedState 0 0 0)) (mouseEvent 50 20 0) = Num 20"
    by (simp add: mouseEvent_distance)
  have m: "extractEvents demoHost ''topMouseMove'' () ''root'' (mouseEvent 50 20 0) (armedState 0 0 0)
             = (RNull, armedState 0 0 0)"
    by (simp add: extractEvents_move)
  show ?thesis
    using d m by (simp add: start_from_initialState tapMoveThreshold_def)
qed


section \<open>The dedup filter\<close>

text \<open>
  The filter drops a start-class event that comes less than 350 ms after a recorded, nonzero
  last accepted start timestamp, without touching the state; an event at least 350 ms after it
  is accepted, just as any event when nothing is recorded.  The same holds for end-class events.
\<close>

lemma dedup_start_recorded:
  assumes "isStartish h ty" and "lastStartTouchEvent s = Some l" and "l \<noteq> 0"
  shows "timeStamp ne - l < 350 \<Longrightarrow> extractEvents h ty tgt tid ne s = (RNull, s)"
    and "timeStamp ne - l \<ge> 350 \<Longrightarrow>
           fst (extractEvents h ty tgt tid ne s) = REvent (getPooled touchTapStart tid ne)
           \<and> lastStartTouchEvent (snd (extractEvents h ty tgt tid ne s)) = Some (timeStamp ne)"
  using assms
  by (simp_all add: extractEvents_start_ignored extractEvents_start_accepted
      ignoredByThreshold_def ignoreMouseThreshold_def)

lemma dedup_end_recorded:
  assumes "\<not> isStartish h ty" and "isEndish h ty"
    and "lastEndTouchEvent s = Some l" and "l \<noteq> 0"
  shows "timeStamp ne - l < 350 \<Longrightarrow> extractEvents h ty tgt tid ne s = (RNull, s)"
    and "timeStamp ne - l \<ge> 350 \<Longrightarrow>
           (\<exists>evs. fst (extractEvents h ty tgt tid ne s) = RArray evs)
           \<and> lastEndTouchEvent (snd (extractEvents h ty tgt tid ne s)) = Some (timeStamp ne)"
  using assms
  by (simp_all add: extractEvents_end_ignored extractEvents_end_accepted
      ignoredByThreshold_def ignoreMouseThreshold_def)

text \<open>
  C3.  The claim asks that a start-class event within 350 ms of the last accepted start-class
  timestamp is dropped.  Line 170 tests the recorded timestamp for truthiness, so a recorded
  timestamp of 0 counts as none: a start at t=0 followed by a start at t=100 yields two
  tap-start events, and the second overwrites the gesture state.
\<close>

theorem C3_zero_timestamp_not_deduplicated:
  "feed demoHost [(''topTouchStart'', ''root'', touchEvent 0 [touchPoint 5 5]),
                  (''topMouseDown'', ''root'', mouseEvent 100 6 6)] initialState
     = ([REvent (getPooled touchTapStart ''root'' (touchEvent 0 [touchPoint 5 5])),
         REvent (getPooled touchTapStart ''root'' (mouseEvent 100 6 6))],
        armedState 100 6 6)"
proof -
  have c: "getAxisCoordOfEvent demoHost Axis_x (touchEvent 0 [touchPoint 5 5]) = Num 5"
          "getAxisCoordOfEvent demoHost Axis_y (touchEvent 0 [touchPoint 5 5]) = Num 5"
    by (simp_all add: getAxisCoordOfEvent_def demoHost_def singleActiveTouch_def touchEvent_def
        touchPoint_def Axis_x_def Axis_y_def js_get_def)
  have t: "timeStamp (touchEvent 0 [touchPoint 5 5]) = 0"
    by (simp add: touchEvent_def)
  have first: "extractEvents demoHost ''topTouchStart'' () ''root''
                 (touchEvent 0 [touchPoint 5 5]) initialState
               = (REvent (getPooled touchTapStart ''root'' (touchEvent 0 [touchPoint 5 5])),
                  armedState 0 5 5)"
    using c t by (simp add: extractEvents_start_accepted initialState_def armedState_def)
  have second: "extractEvents demoHost ''topMouseDown'' () ''root'' (mouseEvent 100 6 6)
                  (armedState 0 5 5)
                = (REvent (getPooled touchTapStart ''root'' (mouseEvent 100 6 6)),
                   armedState 100 6 6)"
    by (simp add: extractEvents_start_accepted ignoredByThreshold_def armedState_def)
  show ?thesis
    using first second by simp
qed


section \<open>What resolution resets\<close>

text \<open>
  C4, as claimed, fails: a move-abort leaves the clock alone.  After a start at (5,5), t=1000,
  the move to (50,50), t=1100, aborts the gesture with a tap-end, and the recorded start time
  is still 1000.
\<close>

theorem C4_move_abort_keeps_clock:
  "fst (feed demoHost [(''topMouseDown'', ''root'', mouseEvent 1000 5 5),
                       (''topMouseMove'', ''root'', mouseEvent 1100 50 50)] initialState)
     = [REvent (getPooled touchTapStart ''root'' (mouseEvent 1000 5 5)),
        REvent (getPooled touchTapEnd ''root'' (mouseEvent 1100 50 50))]
   \<and> time_start (Time (snd (feed demoHost
         [(''topMouseDown'', ''root'', mouseEvent 1000 5 5),
          (''topMouseMove'', ''root'', mouseEvent 1100 50 50)] initialState))) = 1000
   \<and> time_start (Time (snd (feed demoHost
         [(''topMouseDown'', ''root'', mouseEvent 1000 5 5),
          (''topMouseMove'', ''root'', mouseEvent 1100 50 50)] initialState))) \<noteq> 0"
proof -
  have "(10::real) \<le> sqrt ((50 - 5)\<^sup>2 + (50 - 5)\<^sup>2)"
    by (simp add: ten_le_sqrt)
  then have "extractEvents demoHost ''topMouseMove'' () ''root'' (mouseEvent 1100 50 50)
               (armedState 1000 5 5)
             = (REvent (getPooled touchTapEnd ''root'' (mouseEvent 1100 50 50)),
                (armedState 1000 5 5)\<lparr> startCoords := \<lparr> coord_x = Num 0, coord_y = Num 0 \<rparr> \<rparr>)"
    by (simp add: extractEvents_move mouseEvent_distance tapMoveThreshold_def)
  then show ?thesis
    by (simp add: start_from_initialState)
qed

text \<open>
  C4, amended.  Whenever an accepted end-class event resolves the gesture (tap completed,
  timed out, or failed by distance), the origin is reset to (0,0) and both clock fields to 0.
  Whenever a move-class event returns an event at all, it is the single tap-end of a
  move-abort; the origin is then reset to (0,0) and the clock and the dedup timestamps are
  left as they were.
\<close>

theorem C4_resolution_resets:
  "(isEndish h ty \<and> \<not> isStartish h ty \<and> \<not> ignoredByThreshold (lastEndTouchEvent s) ne \<longrightarrow>
      startCoords (snd (extractEvents h ty tgt tid ne s)) = \<lparr> coord_x = Num 0, coord_y = Num 0 \<rparr>
      \<and> Time (snd (extractEvents h ty tgt tid ne s)) = \<lparr> time_start = 0, time_end = 0 \<rparr>)
   \<and> (\<not> isStartish h ty \<and> \<not> isEndish h ty \<and> fst (extractEvents h ty tgt tid ne s) \<noteq> RNull \<longrightarrow>
      fst (extractEvents h ty tgt tid ne s) = REvent (getPooled touchTapEnd tid ne)
      \<and> snd (extractEvents h ty tgt tid ne s)
          = s\<lparr> startCoords := \<lparr> coord_x = Num 0, coord_y = Num 0 \<rparr> \<rparr>
      \<and> Time (snd (extractEvents h ty tgt tid ne s)) = Time s)"
proof (rule conjI; rule impI)
  assume "isEndish h ty \<and> \<not> isStartish h ty \<and> \<not> ignoredByThreshold (lastEndTouchEvent s) ne"
  then show "startCoords (snd (extractEvents h ty tgt tid ne s)) = \<lparr> coord_x = Num 0, coord_y = Num 0 \<rparr>
      \<and> Time (snd (extractEvents h ty tgt tid ne s)) = \<lparr> time_start = 0, time_end = 0 \<rparr>"
    by (simp add: extractEvents_end_accepted)
next
  assume a: "\<not> isStartish h ty \<and> \<not> isEndish h ty \<and> fst (extractEvents h ty tgt tid ne s) \<noteq> RNull"
  then have "truthy (coord_x (startCoords s)) \<and> truthy (coord_y (startCoords s))
               \<and> js_ge (getDistance h (startCoords s) ne) (Num tapMoveThreshold)"
    by (auto simp add: extractEvents_move split: if_splits)
  with a show "fst (extractEvents h ty tgt tid ne s) = REvent (getPooled touchTapEnd tid ne)
      \<and> snd (extractEvents h ty tgt tid ne s)
          = s\<lparr> startCoords := \<lparr> coord_x = Num 0, coord_y = Num 0 \<rparr> \<rparr>
      \<and> Time (snd (extractEvents h ty tgt tid ne s)) = Time s"
    by (simp add: extractEvents_move)
qed

theorem C4_resolution_resets_witness:
  "(isEndish demoHost ''topMouseUp'' \<and> \<not> isStartish demoHost ''topMouseUp''
    \<and> \<not> ignoredByThreshold (lastEndTouchEvent (armedState 1000 5 5)) (mouseEvent 1100 5 5)
    \<and> startCoords (snd (extractEvents demoHost ''topMouseUp'' () ''root'' (mouseEvent 1100 5 5)
         (armedState 1000 5 5))) = \<lparr> coord_x = Num 0, coord_y = Num 0 \<rparr>
    \<and> Time (snd (extractEvents demoHost ''topMouseUp'' () ''root'' (mouseEvent 1100 5 5)
         (armedState 1000 5 5))) = \<lparr> time_start = 0, time_end = 0 \<rparr>)
   \<and> (\<not> isStartish demoHost ''topMouseMove'' \<and> \<not> isEndish demoHost ''topMouseMove''
    \<and> fst (extractEvents demoHost ''topMouseMove'' () ''root'' (mouseEvent 1100 50 50)
         (armedState 1000 5 5)) \<noteq> RNull
    \<and> Time (snd (extractEvents demoHost ''topMouseMove'' () ''root'' (mouseEvent 1100 50 50)
         (armedState 1000 5 5))) = \<lparr> time_start = 1000, time_end = 0 \<rparr>)"
proof -
  have far: "(10::real) \<le> sqrt ((50 - 5)\<^sup>2 + (50 - 5)\<^sup>2)"
    by (simp add: ten_le_sqrt)
  then have nn: "fst (extractEvents demoHost ''topMouseMove'' () ''root'' (mouseEvent 1100 50 50)
         (armedState 1000 5 5)) \<noteq> RNull"
    by (simp add: extractEvents_move mouseEvent_distance tapMoveThreshold_def)
  show ?thesis
    using nn
      C4_resolution_resets [where h = demoHost and ty = "''topMouseUp''"
        and s = "armedState 1000 5 5" and ne = "mouseEvent 1100 5 5" and tgt = "()"
        and tid = "''root''", THEN conjunct1]
      C4_resolution_resets [where h = demoHost and ty = "''topMouseMove''"
        and s = "armedState 1000 5 5" and ne = "mouseEvent 1100 50 50" and tgt = "()"
        and tid = "''root''", THEN conjunct2]
    by simp
qed


section \<open>The threshold boundary\<close>

text \<open>
  Both comparisons are against the same constant \<open>tapMoveThreshold\<close>.  A move-class
  event that reaches the comparison of line 185 (both origin coordinates truthy) aborts the
  gesture exactly when the distance is at least the threshold, so a distance equal to the
  threshold aborts.  An accepted end-class event confirms a tap exactly when the duration is
  within the time window and the distance is strictly below the threshold, so a distance equal
  to the threshold yields a tap-end and no tap.
\<close>

lemma threshold_comparisons:
  "(\<not> isStartish h ty \<and> \<not> isEndish h ty
      \<and> truthy (coord_x (startCoords s)) \<and> truthy (coord_y (startCoords s)) \<longrightarrow>
        (fst (extractEvents h ty tgt tid ne s) = REvent (getPooled touchTapEnd tid ne)
           \<longleftrightarrow> js_ge (getDistance h (startCoords s) ne) (Num tapMoveThreshold))
        \<and> (getDistance h (startCoords s) ne = Num tapMoveThreshold \<longrightarrow>
             extractEvents h ty tgt tid ne s
               = (REvent (getPooled touchTapEnd tid ne),
                  s\<lparr> startCoords := \<lparr> coord_x = Num 0, coord_y = Num 0 \<rparr> \<rparr>)))
   \<and> (isEndish h ty \<and> \<not> isStartish h ty \<and> \<not> ignoredByThreshold (lastEndTouchEvent s) ne \<longrightarrow>
        (fst (extractEvents h ty tgt tid ne s)
             = RArray [getPooled touchTapEnd tid ne, getPooled touchTap tid ne]
           \<longleftrightarrow> timeStamp ne - time_start (Time s) \<le> tapTimeThreshold
               \<and> js_lt (getDistance h (startCoords s) ne) (Num tapMoveThreshold))
        \<and> (getDistance h (startCoords s) ne = Num tapMoveThreshold \<longrightarrow>
             fst (extractEvents h ty tgt tid ne s) = RArray [getPooled touchTapEnd tid ne]))"
proof (rule conjI; rule impI)
  assume "\<not> isStartish h ty \<and> \<not> isEndish h ty
      \<and> truthy (coord_x (startCoords s)) \<and> truthy (coord_y (startCoords s))"
  then show "(fst (extractEvents h ty tgt tid ne s) = REvent (getPooled touchTapEnd tid ne)
           \<longleftrightarrow> js_ge (getDistance h (startCoords s) ne) (Num tapMoveThreshold))
        \<and> (getDistance h (startCoords s) ne = Num tapMoveThreshold \<longrightarrow>
             extractEvents h ty tgt tid ne s
               = (REvent (getPooled touchTapEnd tid ne),
                  s\<lparr> startCoords := \<lparr> coord_x = Num 0, coord_y = Num 0 \<rparr> \<rparr>))"
    by (simp add: extractEvents_move)
next
  assume "isEndish h ty \<and> \<not> isStartish h ty \<and> \<not> ignoredByThreshold (lastEndTouchEvent s) ne"
  then show "(fst (extractEvents h ty tgt tid ne s)
             = RArray [getPooled touchTapEnd tid ne, getPooled touchTap tid ne]
           \<longleftrightarrow> timeStamp ne - time_start (Time s) \<le> tapTimeThreshold
               \<and> js_lt (getDistance h (startCoords s) ne) (Num tapMoveThreshold))
        \<and> (getDistance h (startCoords s) ne = Num tapMoveThreshold \<longrightarrow>
             fst (extractEvents h ty tgt tid ne s) = RArray [getPooled touchTapEnd tid ne])"
    by (simp add: extractEvents_end_accepted not_less)
qed

lemma threshold_comparisons_at_boundary:
  "(\<not> isStartish demoHost ''topMouseMove'' \<and> \<not> isEndish demoHost ''topMouseMove''
      \<and> truthy (coord_x (startCoords (armedState 0 1 1)))
      \<and> truthy (coord_y (startCoords (armedState 0 1 1)))
      \<and> getDistance demoHost (startCoords (armedState 0 1 1)) (mouseEvent 50 11 1)
          = Num tapMoveThreshold
      \<and> fst (extractEvents demoHost ''topMouseMove'' () ''root'' (mouseEvent 50 11 1)
            (armedState 0 1 1)) = REvent (getPooled touchTapEnd ''root'' (mouseEvent 50 11 1)))
   \<and> (isEndish demoHost ''topMouseUp'' \<and> \<not> isStartish demoHost ''topMouseUp''
      \<and> \<not> ignoredByThreshold (lastEndTouchEvent (armedState 0 1 1)) (mouseEvent 50 11 1)
      \<and> fst (extractEvents demoHost ''topMouseUp'' () ''root'' (mouseEvent 50 11 1)
            (armedState 0 1 1)) = RArray [getPooled touchTapEnd ''root'' (mouseEvent 50 11 1)])"
proof -
  have d: "getDistance demoHost (startCoords (armedState 0 1 1)) (mouseEvent 50 11 1)
             = Num tapMoveThreshold"
    by (simp add: mouseEvent_distance sqrt_hundred tapMoveThreshold_def)
  show ?thesis
    using d
      threshold_comparisons [where h = demoHost and ty = "''topMouseMove''"
        and s = "armedState 0 1 1" and ne = "mouseEvent 50 11 1" and tgt = "()"
        and tid = "''root''", THEN conjunct1]
      threshold_comparisons [where h = demoHost and ty = "''topMouseUp''"
        and s = "armedState 0 1 1" and ne = "mouseEvent 50 11 1" and tgt = "()"
        and tid = "''root''", THEN conjunct2]
    by simp
qed

text \<open>
  C6.  The claim asks that a move-class event at distance exactly the threshold from the origin
  of a started, unresolved gesture aborts it, and that an end-class event at that distance does
  not confirm a tap.  The end half holds: after a start at (0,5), t=0, an end at (10,5), t=50,
  at distance exactly 10, yields a tap-end and no tap.  The move half does not hold for such a
  gesture: line 183 tests the origin coordinates for truthiness, the captured x = 0 is falsy,
  and the move to (10,5), t=50, at distance exactly 10, returns nothing and leaves the gesture
  as the start left it.
\<close>

theorem C6_boundary_move_from_zero_origin_not_aborted:
  "feed demoHost [(''topMouseDown'', ''root'', mouseEvent 0 0 5),
                  (''topMouseMove'', ''root'', mouseEvent 50 10 5)] initialState
     = ([REvent (getPooled touchTapStart ''root'' (mouseEvent 0 0 5)), RNull], armedState 0 0 5)
   \<and> getDistance demoHost (startCoords (armedState 0 0 5)) (mouseEvent 50 10 5)
       = Num tapMoveThreshold
   \<and> fst (feed demoHost [(''topMouseDown'', ''root'', mouseEvent 0 0 5),
                         (''topMouseUp'', ''root'', mouseEvent 50 10 5)] initialState)
       = [REvent (getPooled touchTapStart ''root'' (mouseEvent 0 0 5)),
          RArray [getPooled touchTapEnd ''root'' (mouseEvent 50 10 5)]]"
proof -
  have d: "getDistance demoHost (startCoords (armedState 0 0 5)) (mouseEvent 50 10 5)
             = Num tapMoveThreshold"
    by (simp add: mouseEvent_distance sqrt_hundred tapMoveThreshold_def)
  have m: "extractEvents demoHost ''topMouseMove'' () ''root'' (mouseEvent 50 10 5)
             (armedState 0 0 5) = (RNull, armedState 0 0 5)"
    by (simp add: extractEvents_move)
  have e: "fst (extractEvents demoHost ''topMouseUp'' () ''root'' (mouseEvent 50 10 5)
             (armedState 0 0 5)) = RArray [getPooled touchTapEnd ''root'' (mouseEvent 50 10 5)]"
    using d by (simp add: extractEvents_end_accepted tapTimeThreshold_def js_lt_def
        tapMoveThreshold_def)
  show ?thesis
    using d m e by (simp add: start_from_initialState split_beta)
qed


section \<open>Coordinate extraction\<close>

text \<open>
  C7.  For every axis descriptor and raw event, \<open>getAxisCoordOfEvent\<close> returns the page
  coordinate of the touch point when the touch extraction yields one (with the extraction of
  the spec: when the event carries exactly one active touch point); otherwise the event's own
  page-coordinate field when the event has it; otherwise the event's client coordinate plus the
  viewport scroll offset of that axis.  \<open>getDistance\<close> applies this one function to both
  axes.
\<close>

theorem C7_axis_coordinate_policy:
  "(\<forall>t. extractSingleTouch h ne = Some t \<longrightarrow>
        getAxisCoordOfEvent h ax ne = js_get t (page ax))
   \<and> (\<forall>t v. extractSingleTouch h ne = Some t \<and> t (page ax) = Some v \<longrightarrow>
        getAxisCoordOfEvent h ax ne = Num v)
   \<and> (\<forall>t. extractSingleTouch h = singleActiveTouch \<and> touches ne = [t] \<longrightarrow>
        getAxisCoordOfEvent h ax ne = js_get t (page ax))
   \<and> (\<forall>v. extractSingleTouch h ne = None \<and> props ne (page ax) = Some v \<longrightarrow>
        getAxisCoordOfEvent h ax ne = Num v)
   \<and> (extractSingleTouch h ne = None \<and> props ne (page ax) = None \<longrightarrow>
        getAxisCoordOfEvent h ax ne
          = js_add (js_get (props ne) (client ax)) (js_get (ViewportMetrics h) (envScroll ax)))
   \<and> (\<forall>c sc. extractSingleTouch h ne = None \<and> props ne (page ax) = None
        \<and> props ne (client ax) = Some c \<and> ViewportMetrics h (envScroll ax) = Some sc \<longrightarrow>
        getAxisCoordOfEvent h ax ne = Num (c + sc))
   \<and> getDistance h cs ne
       = Math_pow_half
           (js_add (Math_pow_2 (js_sub (getAxisCoordOfEvent h Axis_x ne) (coord_x cs)))
                   (Math_pow_2 (js_sub (getAxisCoordOfEvent h Axis_y ne) (coord_y cs))))"
  by (simp add: getAxisCoordOfEvent_def getDistance_def singleActiveTouch_def
      js_get_def js_in_def js_add_def)

theorem C7_axis_coordinate_policy_witness:
  "extractSingleTouch demoHost (touchEvent 0 [touchPoint 3 4]) = Some (touchPoint 3 4)
   \<and> getAxisCoordOfEvent demoHost Axis_x (touchEvent 0 [touchPoint 3 4]) = Num 3
   \<and> getAxisCoordOfEvent demoHost Axis_y (touchEvent 0 [touchPoint 3 4]) = Num 4
   \<and> extractSingleTouch demoHost (mouseEvent 0 3 4) = None
   \<and> getAxisCoordOfEvent demoHost Axis_x (mouseEvent 0 3 4) = Num 3
   \<and> getAxisCoordOfEvent demoHost Axis_y (mouseEvent 0 3 4) = Num 4
   \<and> extractSingleTouch demoHost (clientOnlyEvent 0 3 4) = None
   \<and> getAxisCoordOfEvent demoHost Axis_x (clientOnlyEvent 0 3 4) = Num 10
   \<and> getAxisCoordOfEvent demoHost Axis_y (clientOnlyEvent 0 3 4) = Num 15"
proof -
  have t: "extractSingleTouch demoHost (touchEvent 0 [touchPoint 3 4]) = Some (touchPoint 3 4)"
    by (simp add: demoHost_def singleActiveTouch_def touchEvent_def)
  have m: "extractSingleTouch demoHost (mouseEvent 0 3 4) = None"
    by (simp add: demoHost_def singleActiveTouch_def mouseEvent_def)
  have c: "extractSingleTouch demoHost (clientOnlyEvent 0 3 4) = None"
    by (simp add: demoHost_def singleActiveTouch_def clientOnlyEvent_def)
  have vm: "ViewportMetrics demoHost ''currentPageScrollLeft'' = Some 7"
           "ViewportMetrics demoHost ''currentPageScrollTop'' = Some 11"
    by (simp_all add: demoHost_def)
  note pol = C7_axis_coordinate_policy [where cs = "\<lparr> coord_x = Null, coord_y = Null \<rparr>"]
  have "getAxisCoordOfEvent demoHost Axis_x (touchEvent 0 [touchPoint 3 4]) = Num 3"
    using t pol [where h = demoHost and ne = "touchEvent 0 [touchPoint 3 4]" and ax = Axis_x]
    by (simp add: touchPoint_def Axis_x_def js_get_def)
  moreover have "getAxisCoordOfEvent demoHost Axis_y (touchEvent 0 [touchPoint 3 4]) = Num 4"
    using t pol [where h = demoHost and ne = "touchEvent 0 [touchPoint 3 4]" and ax = Axis_y]
    by (simp add: touchPoint_def Axis_y_def js_get_def)
  moreover have "getAxisCoordOfEvent demoHost Axis_x (mouseEvent 0 3 4) = Num 3"
    using m pol [where h = demoHost and ne = "mouseEvent 0 3 4" and ax = Axis_x]
    by (simp add: mouseEvent_def Axis_x_def)
  moreover have "getAxisCoordOfEvent demoHost Axis_y (mouseEvent 0 3 4) = Num 4"
    using m pol [where h = demoHost and ne = "mouseEvent 0 3 4" and ax = Axis_y]
    by (simp add: mouseEvent_def Axis_y_def)
  moreover have "getAxisCoordOfEvent demoHost Axis_x (clientOnlyEvent 0 3 4) = Num 10"
    using c vm pol [where h = demoHost and ne = "clientOnlyEvent 0 3 4" and ax = Axis_x]
    by (simp add: clientOnlyEvent_def Axis_x_def js_get_def js_add_def)
  moreover have "getAxisCoordOfEvent demoHost Axis_y (clientOnlyEvent 0 3 4) = Num 15"
    using c vm pol [where h = demoHost and ne = "clientOnlyEvent 0 3 4" and ax = Axis_y]
    by (simp add: clientOnlyEvent_def Axis_y_def js_get_def js_add_def)
  ultimately show ?thesis
    using t m c by simp
qed


section \<open>Declared dependencies\<close>

text \<open>
  C8, as claimed, fails: the assignment to \<open>dependencies\<close> is inside
  \<open>if (EventPluginUtils.useTouchEvents)\<close>.  With that flag off the variable stays undefined,
  also on a touch device, and the event types carry neither list.
\<close>

theorem C8_no_list_without_useTouchEvents:
  "deps (eventTypes \<lparr> useTouchEvents = False, ontouchstart_in_window = True \<rparr> touchTap) = None
   \<and> deps (eventTypes \<lparr> useTouchEvents = False, ontouchstart_in_window = True \<rparr> touchTap)
       \<noteq> Some touchDependencies
   \<and> deps (eventTypes \<lparr> useTouchEvents = False, ontouchstart_in_window = True \<rparr> touchTap)
       \<noteq> Some mouseDependencies"
  by (simp add: dependencies_def)

text \<open>
  C8, amended.  When \<open>EventPluginUtils.useTouchEvents\<close> is set, each of the three exposed event
  types carries the touch-based kinds (touchCancel, touchEnd, touchStart, touchMove) if
  \<open>'ontouchstart' in window\<close>, and the mouse-based kinds (mouseDown, mouseMove, mouseUp)
  otherwise.
\<close>

theorem C8_dependencies_when_enabled:
  assumes "useTouchEvents c"
  shows "deps (eventTypes c n)
           = Some (if isTouchDevice c
                   then [''topTouchCancel'', ''topTouchEnd'', ''topTouchStart'', ''topTouchMove'']
                   else [''topMouseDown'', ''topMouseMove'', ''topMouseUp''])"
  using assms
  by (cases n) (simp_all add: dependencies_def touchDependencies_def mouseDependencies_def)

theorem C8_dependencies_when_enabled_witness:
  "useTouchEvents \<lparr> useTouchEvents = True, ontouchstart_in_window = True \<rparr>
   \<and> deps (eventTypes \<lparr> useTouchEvents = True, ontouchstart_in_window = True \<rparr> touchTapEnd)
       = Some [''topTouchCancel'', ''topTouchEnd'', ''topTouchStart'', ''topTouchMove'']
   \<and> useTouchEvents \<lparr> useTouchEvents = True, ontouchstart_in_window = False \<rparr>
   \<and> deps (eventTypes \<lparr> useTouchEvents = True, ontouchstart_in_window = False \<rparr> touchTap)
       = Some [''topMouseDown'', ''topMouseMove'', ''topMouseUp'']"
  using C8_dependencies_when_enabled
          [of "\<lparr> useTouchEvents = True, ontouchstart_in_window = True \<rparr>" touchTapEnd]
        C8_dependencies_when_enabled
          [of "\<lparr> useTouchEvents = True, ontouchstart_in_window = False \<rparr>" touchTap]
  by (simp add: isTouchDevice_def)


section \<open>The zero sentinel\<close>

text \<open>A run of move-class events against an origin with a falsy coordinate does nothing.\<close>

lemma feed_moves_unarmed:
  assumes "\<not> (truthy (coord_x (startCoords s)) \<and> truthy (coord_y (startCoords s)))"
    and "\<forall>m \<in> set moves. \<not> isStartish h (fst m) \<and> \<not> isEndish h (fst m)"
  shows "feed h moves s = (replicate (length moves) RNull, s)"
  using assms(2)
proof (induction moves)
  case Nil
  show ?case by simp
next
  case (Cons m moves)
  obtain ty tid ne where m: "m = (ty, tid, ne)"
    by (cases m) auto
  from Cons.prems m have "\<not> isStartish h ty" and "\<not> isEndish h ty"
    by simp_all
  then have "extractEvents h ty () tid ne s = (RNull, s)"
    using assms(1) by (auto simp add: extractEvents_move)
  moreover from Cons have "feed h moves s = (replicate (length moves) RNull, s)"
    by simp
  ultimately show ?case
    using m by simp
qed

text \<open>
  C9.  The armed check for move-class events is the truthiness of both origin coordinates: a
  move-class event returns something only if both are truthy.  Resolution, by an accepted
  end-class event or by a move-abort, sets the origin to (0,0), not to null.  Consequently,
  once an accepted start-class event has captured an origin with x = 0 or y = 0, every
  following run of move-class events returns nothing and changes no state, however far the
  events are from the origin; the same holds in any state whose origin has a zero coordinate.
\<close>

theorem C9_zero_origin_never_aborts:
  "(\<not> isStartish h ty \<and> \<not> isEndish h ty \<and> fst (extractEvents h ty tgt tid ne s) \<noteq> RNull \<longrightarrow>
      truthy (coord_x (startCoords s)) \<and> truthy (coord_y (startCoords s))
      \<and> startCoords (snd (extractEvents h ty tgt tid ne s))
          = \<lparr> coord_x = Num 0, coord_y = Num 0 \<rparr>)
   \<and> (isEndish h ty \<and> \<not> isStartish h ty \<and> \<not> ignoredByThreshold (lastEndTouchEvent s) ne \<longrightarrow>
      startCoords (snd (extractEvents h ty tgt tid ne s))
        = \<lparr> coord_x = Num 0, coord_y = Num 0 \<rparr>)
   \<and> (\<not> isStartish h ty \<and> \<not> isEndish h ty
      \<and> (coord_x (startCoords s) = Num 0 \<or> coord_y (startCoords s) = Num 0) \<longrightarrow>
      extractEvents h ty tgt tid ne s = (RNull, s))
   \<and> (\<forall>moves.
        isStartish h ty \<and> \<not> ignoredByThreshold (lastStartTouchEvent s) ne
        \<and> (getAxisCoordOfEvent h Axis_x ne = Num 0 \<or> getAxisCoordOfEvent h Axis_y ne = Num 0)
        \<and> (\<forall>m \<in> set moves. \<not> isStartish h (fst m) \<and> \<not> isEndish h (fst m)) \<longrightarrow>
        feed h ((ty, tid, ne) # moves) s
          = (REvent (getPooled touchTapStart tid ne) # replicate (length moves) RNull,
             snd (extractEvents h ty () tid ne s)))"
proof (intro conjI allI; rule impI)
  assume a: "\<not> isStartish h ty \<and> \<not> isEndish h ty
               \<and> fst (extractEvents h ty tgt tid ne s) \<noteq> RNull"
  then have "truthy (coord_x (startCoords s)) \<and> truthy (coord_y (startCoords s))
               \<and> js_ge (getDistance h (startCoords s) ne) (Num tapMoveThreshold)"
    by (auto simp add: extractEvents_move split: if_splits)
  with a show "truthy (coord_x (startCoords s)) \<and> truthy (coord_y (startCoords s))
      \<and> startCoords (snd (extractEvents h ty tgt tid ne s))
          = \<lparr> coord_x = Num 0, coord_y = Num 0 \<rparr>"
    by (simp add: extractEvents_move)
next
  assume "isEndish h ty \<and> \<not> isStartish h ty \<and> \<not> ignoredByThreshold (lastEndTouchEvent s) ne"
  then show "startCoords (snd (extractEvents h ty tgt tid ne s))
        = \<lparr> coord_x = Num 0, coord_y = Num 0 \<rparr>"
    by (simp add: extractEvents_end_accepted)
next
  assume "\<not> isStartish h ty \<and> \<not> isEndish h ty
      \<and> (coord_x (startCoords s) = Num 0 \<or> coord_y (startCoords s) = Num 0)"
  then show "extractEvents h ty tgt tid ne s = (RNull, s)"
    by (auto simp add: extractEvents_move)
next
  fix moves :: "(string \<times> string \<times> nativeEvent) list"
  assume a: "isStartish h ty \<and> \<not> ignoredByThreshold (lastStartTouchEvent s) ne
        \<and> (getAxisCoordOfEvent h Axis_x ne = Num 0 \<or> getAxisCoordOfEvent h Axis_y ne = Num 0)
        \<and> (\<forall>m \<in> set moves. \<not> isStartish h (fst m) \<and> \<not> isEndish h (fst m))"
  let ?s1 = "snd (extractEvents h ty () tid ne s)"
  from a have first: "fst (extractEvents h ty () tid ne s)
                        = REvent (getPooled touchTapStart tid ne)"
    by (simp add: extractEvents_start_accepted)
  from a have "coord_x (startCoords ?s1) = Num 0 \<or> coord_y (startCoords ?s1) = Num 0"
    by (simp add: extractEvents_start_accepted)
  then have "\<not> (truthy (coord_x (startCoords ?s1)) \<and> truthy (coord_y (startCoords ?s1)))"
    by auto
  with a have "feed h moves ?s1 = (replicate (length moves) RNull, ?s1)"
    by (intro feed_moves_unarmed) simp_all
  with first show "feed h ((ty, tid, ne) # moves) s
          = (REvent (getPooled touchTapStart tid ne) # replicate (length moves) RNull, ?s1)"
    by (simp add: split_beta)
qed

theorem C9_zero_origin_never_aborts_witness:
  "isStartish demoHost ''topMouseDown''
   \<and> \<not> ignoredByThreshold (lastStartTouchEvent initialState) (mouseEvent 1000 0 300)
   \<and> getAxisCoordOfEvent demoHost Axis_x (mouseEvent 1000 0 300) = Num 0
   \<and> \<not> isStartish demoHost ''topMouseMove'' \<and> \<not> isEndish demoHost ''topMouseMove''
   \<and> feed demoHost [(''topMouseDown'', ''root'', mouseEvent 1000 0 300),
                    (''topMouseMove'', ''root'', mouseEvent 1010 200 300),
                    (''topMouseMove'', ''root'', mouseEvent 1020 900 900)] initialState
       = ([REvent (getPooled touchTapStart ''root'' (mouseEvent 1000 0 300)), RNull, RNull],
          armedState 1000 0 300)"
  using C9_zero_origin_never_aborts [where h = demoHost and ty = "''topMouseDown''"
          and s = initialState and ne = "mouseEvent 1000 0 300" and tgt = "()"
          and tid = "''root''", THEN conjunct2, THEN conjunct2, THEN conjunct2, rule_format,
          of "[(''topMouseMove'', ''root'', mouseEvent 1010 200 300),
               (''topMouseMove'', ''root'', mouseEvent 1020 900 900)]"]
  by (simp add: start_from_initialState)


section \<open>Stray end-class events\<close>

text \<open>
  C10, as claimed, fails for an end-class event that follows a move-abort: the abort clears
  the origin but not the start time.  After a start at (5,5), t=5000, and an aborting move to
  (50,50), t=5100, the end at (3,4), t=5200, has duration 200 against the start time still
  recorded, and emits [tap-end, tap]; against a start time of 0 its duration would be 5200,
  beyond the time window, and there would be no tap.
\<close>

theorem C10_end_after_abort_uses_old_start:
  "fst (feed demoHost [(''topMouseDown'', ''root'', mouseEvent 5000 5 5),
                       (''topMouseMove'', ''root'', mouseEvent 5100 50 50),
                       (''topMouseUp'', ''root'', mouseEvent 5200 3 4)] initialState)
     = [REvent (getPooled touchTapStart ''root'' (mouseEvent 5000 5 5)),
        REvent (getPooled touchTapEnd ''root'' (mouseEvent 5100 50 50)),
        RArray [getPooled touchTapEnd ''root'' (mouseEvent 5200 3 4),
                getPooled touchTap ''root'' (mouseEvent 5200 3 4)]]
   \<and> timeStamp (mouseEvent 5200 3 4) - 0 > tapTimeThreshold"
proof -
  have "(10::real) \<le> sqrt ((50 - 5)\<^sup>2 + (50 - 5)\<^sup>2)"
    by (simp add: ten_le_sqrt)
  then have abort: "extractEvents demoHost ''topMouseMove'' () ''root'' (mouseEvent 5100 50 50)
               (armedState 5000 5 5)
             = (REvent (getPooled touchTapEnd ''root'' (mouseEvent 5100 50 50)),
                armedState 5000 0 0)"
    by (simp add: extractEvents_move mouseEvent_distance tapMoveThreshold_def armedState_def)
  have "sqrt ((3 - 0)\<^sup>2 + (4 - 0)\<^sup>2) < (10::real)"
    by (simp add: sqrt_less_ten)
  then have "fst (extractEvents demoHost ''topMouseUp'' () ''root'' (mouseEvent 5200 3 4)
               (armedState 5000 0 0))
             = RArray [getPooled touchTapEnd ''root'' (mouseEvent 5200 3 4),
                       getPooled touchTap ''root'' (mouseEvent 5200 3 4)]"
    by (simp add: extractEvents_end_accepted mouseEvent_distance tapMoveThreshold_def
        tapTimeThreshold_def)
  with abort show ?thesis
    by (simp add: start_from_initialState split_beta tapTimeThreshold_def)
qed

text \<open>
  C10, amended.  The end-class branch never checks whether a gesture is armed: every
  end-class event that passes the dedup filter emits a tap-end first, and a tap after it
  exactly when the event's timestamp minus the stored start time is at most 2000 and the
  distance to the stored origin (null read as 0) is below the move threshold.  With no prior
  start-class event, or after an end-class resolution, the stored origin reads as (0,0) and the
  stored start time is 0, so a stray end-class event with timestamp at most 2000 and page
  coordinates less than the threshold away from (0,0) emits a tap.  After a move-abort the
  stored origin is (0,0) and the stored start time is still that of the aborted gesture.
\<close>

theorem C10_stray_end_event:
  "(isEndish h ty \<and> \<not> isStartish h ty \<and> \<not> ignoredByThreshold (lastEndTouchEvent s) ne \<longrightarrow>
      (\<exists>rest. fst (extractEvents h ty tgt tid ne s)
                 = RArray (getPooled touchTapEnd tid ne # rest))
      \<and> (fst (extractEvents h ty tgt tid ne s)
             = RArray [getPooled touchTapEnd tid ne, getPooled touchTap tid ne]
           \<longleftrightarrow> timeStamp ne - time_start (Time s) \<le> 2000
               \<and> js_lt (getDistance h (startCoords s) ne) (Num tapMoveThreshold))
      \<and> startCoords (snd (extractEvents h ty tgt tid ne s))
          = \<lparr> coord_x = Num 0, coord_y = Num 0 \<rparr>
      \<and> time_start (Time (snd (extractEvents h ty tgt tid ne s))) = 0)
   \<and> (\<forall>px py.
        isEndish h ty \<and> \<not> isStartish h ty \<and> \<not> ignoredByThreshold (lastEndTouchEvent s) ne
        \<and> (startCoords s = \<lparr> coord_x = Null, coord_y = Null \<rparr>
             \<or> startCoords s = \<lparr> coord_x = Num 0, coord_y = Num 0 \<rparr>)
        \<and> time_start (Time s) = 0
        \<and> getAxisCoordOfEvent h Axis_x ne = Num px \<and> getAxisCoordOfEvent h Axis_y ne = Num py \<longrightarrow>
          (fst (extractEvents h ty tgt tid ne s)
               = RArray [getPooled touchTapEnd tid ne, getPooled touchTap tid ne]
             \<longleftrightarrow> timeStamp ne \<le> 2000 \<and> sqrt (px\<^sup>2 + py\<^sup>2) < 10))
   \<and> (\<not> isStartish h ty \<and> \<not> isEndish h ty \<and> fst (extractEvents h ty tgt tid ne s) \<noteq> RNull \<longrightarrow>
        startCoords (snd (extractEvents h ty tgt tid ne s))
          = \<lparr> coord_x = Num 0, coord_y = Num 0 \<rparr>
        \<and> time_start (Time (snd (extractEvents h ty tgt tid ne s))) = time_start (Time s))"
proof (intro conjI allI; rule impI)
  assume "isEndish h ty \<and> \<not> isStartish h ty \<and> \<not> ignoredByThreshold (lastEndTouchEvent s) ne"
  then show "(\<exists>rest. fst (extractEvents h ty tgt tid ne s)
                 = RArray (getPooled touchTapEnd tid ne # rest))
      \<and> (fst (extractEvents h ty tgt tid ne s)
             = RArray [getPooled touchTapEnd tid ne, getPooled touchTap tid ne]
           \<longleftrightarrow> timeStamp ne - time_start (Time s) \<le> 2000
               \<and> js_lt (getDistance h (startCoords s) ne) (Num tapMoveThreshold))
      \<and> startCoords (snd (extractEvents h ty tgt tid ne s))
          = \<lparr> coord_x = Num 0, coord_y = Num 0 \<rparr>
      \<and> time_start (Time (snd (extractEvents h ty tgt tid ne s))) = 0"
    by (simp add: extractEvents_end_accepted tapTimeThreshold_def not_less)
next
  fix px py
  assume a: "isEndish h ty \<and> \<not> isStartish h ty \<and> \<not> ignoredByThreshold (lastEndTouchEvent s) ne
        \<and> (startCoords s = \<lparr> coord_x = Null, coord_y = Null \<rparr>
             \<or> startCoords s = \<lparr> coord_x = Num 0, coord_y = Num 0 \<rparr>)
        \<and> time_start (Time s) = 0
        \<and> getAxisCoordOfEvent h Axis_x ne = Num px \<and> getAxisCoordOfEvent h Axis_y ne = Num py"
  then have "toNumber (coord_x (startCoords s)) = Some 0"
    and "toNumber (coord_y (startCoords s)) = Some 0"
    by auto
  with a have "getDistance h (startCoords s) ne = Num (sqrt ((px - 0)\<^sup>2 + (py - 0)\<^sup>2))"
    by (intro getDistance_numeric) simp_all
  with a show "fst (extractEvents h ty tgt tid ne s)
               = RArray [getPooled touchTapEnd tid ne, getPooled touchTap tid ne]
             \<longleftrightarrow> timeStamp ne \<le> 2000 \<and> sqrt (px\<^sup>2 + py\<^sup>2) < 10"
    by (simp add: extractEvents_end_accepted tapTimeThreshold_def tapMoveThreshold_def not_less)
next
  assume a: "\<not> isStartish h ty \<and> \<not> isEndish h ty
               \<and> fst (extractEvents h ty tgt tid ne s) \<noteq> RNull"
  then have "truthy (coord_x (startCoords s)) \<and> truthy (coord_y (startCoords s))
               \<and> js_ge (getDistance h (startCoords s) ne) (Num tapMoveThreshold)"
    by (auto simp add: extractEvents_move split: if_splits)
  with a show "startCoords (snd (extractEvents h ty tgt tid ne s))
          = \<lparr> coord_x = Num 0, coord_y = Num 0 \<rparr>
        \<and> time_start (Time (snd (extractEvents h ty tgt tid ne s))) = time_start (Time s)"
    by (simp add: extractEvents_move)
qed

theorem C10_stray_end_event_witness:
  "isEndish demoHost ''topMouseUp'' \<and> \<not> isStartish demoHost ''topMouseUp''
   \<and> \<not> ignoredByThreshold (lastEndTouchEvent initialState) (mouseEvent 1500 3 4)
   \<and> startCoords initialState = \<lparr> coord_x = Null, coord_y = Null \<rparr>
   \<and> time_start (Time initialState) = 0
   \<and> fst (extractEvents demoHost ''topMouseUp'' () ''root'' (mouseEvent 1500 3 4) initialState)
       = RArray [getPooled touchTapEnd ''root'' (mouseEvent 1500 3 4),
                 getPooled touchTap ''root'' (mouseEvent 1500 3 4)]"
proof -
  have "sqrt (3\<^sup>2 + 4\<^sup>2) < (10::real)"
    by (simp add: sqrt_less_ten)
  then show ?thesis
    using C10_stray_end_event [where h = demoHost and ty = "''topMouseUp''"
            and s = initialState and ne = "mouseEvent 1500 3 4" and tgt = "()"
            and tid = "''root''", THEN conjunct2, THEN conjunct1, rule_format, of 3 4]
    by simp
qed

end
